theory Spec2Isabelle
  imports Complex_Main "HOL-Library.AList" "HOL-Library.Multiset" "HOL-Library.Product_Lexorder"
begin

section \<open>Formulas\<close>

text \<open>
  A \<^verbatim>\<open>Tree\<close> object of \<^verbatim>\<open>deduce.py\<close> has a string \<^verbatim>\<open>tag\<close> and a list \<^verbatim>\<open>kids\<close>. The
  trees the prover works on are the ones the parser builds: an atom has the tag
  \<^verbatim>\<open>':' + c\<close> and no kids, a connective has one of the tags \<^verbatim>\<open>&\<close>, \<^verbatim>\<open>+\<close>, \<^verbatim>\<open>->\<close> and
  exactly two kids. The datatype has one constructor for each of the four shapes;
  \<open>Atom c\<close> stands for the tree with tag \<^verbatim>\<open>':' + c\<close>.
\<close>

datatype tree = Atom string | And tree tree | Or tree tree | Imp tree tree

fun tag :: "tree \<Rightarrow> string" where
  "tag (Atom c) = CHR '':'' # c"
| "tag (And a b) = ''&''"
| "tag (Or a b) = ''+''"
| "tag (Imp a b) = ''->''"

fun kids :: "tree \<Rightarrow> tree list" where
  "kids (Atom c) = []"
| "kids (And a b) = [a, b]"
| "kids (Or a b) = [a, b]"
| "kids (Imp a b) = [a, b]"

text \<open>
  \<^verbatim>\<open>Tree.matches\<close>: equal tags, equal numbers of kids, and the kids match pairwise.
\<close>

fun matches :: "tree \<Rightarrow> tree \<Rightarrow> bool" where
  "matches (Atom c) (Atom d) = (tag (Atom c) = tag (Atom d))"
| "matches (And a b) (And c d) = (matches a c \<and> matches b d)"
| "matches (Or a b) (Or c d) = (matches a c \<and> matches b d)"
| "matches (Imp a b) (Imp c d) = (matches a c \<and> matches b d)"
| "matches _ _ = False"

text \<open>
  Modelled from the spec: \<^verbatim>\<open>Tree.display\<close>, the rendering of a tree in the trace. The
  statements that print the trace call it, and \<^verbatim>\<open>deduce.py\<close> does not define it. The
  specification has the trace as output that never influences the search, and the
  file defines \<^verbatim>\<open>as_str\<close>, which renders a tree and itself calls \<^verbatim>\<open>display\<close> on the
  kids; \<open>display\<close> follows \<^verbatim>\<open>as_str\<close>: an atom is its tag without the colon, a
  connective is its tag between its kids, a kid that has kids in parentheses.
\<close>

fun display :: "tree \<Rightarrow> string" where
  "display (Atom c) = c"
| "display (And a b) =
     (if kids a = [] then display a else ''('' @ display a @ '')'') @ tag (And a b) @
     (if kids b = [] then display b else ''('' @ display b @ '')'')"
| "display (Or a b) =
     (if kids a = [] then display a else ''('' @ display a @ '')'') @ tag (Or a b) @
     (if kids b = [] then display b else ''('' @ display b @ '')'')"
| "display (Imp a b) =
     (if kids a = [] then display a else ''('' @ display a @ '')'') @ tag (Imp a b) @
     (if kids b = [] then display b else ''('' @ display b @ '')'')"

fun is_atom :: "tree \<Rightarrow> bool" where
  "is_atom (Atom c) = True"
| "is_atom _ = False"

fun is_and :: "tree \<Rightarrow> bool" where
  "is_and (And a b) = True"
| "is_and _ = False"

fun is_or :: "tree \<Rightarrow> bool" where
  "is_or (Or a b) = True"
| "is_or _ = False"

section \<open>Heuristics\<close>

text \<open>
  An atom profile is a Python dictionary from atom tags to numbers, kept here as an
  association list in insertion order. The source computes the weights and scores in
  double precision; the model computes them exactly, as rationals. The weights are
  sums of products of 1, 1/2, 1/4 and 3/4, so on formulas of moderate depth (all the
  formulas evaluated below) they are exact in double precision too, and the division
  by the number of keys, which is correctly rounded, maps equal quotients to equal
  doubles and never reverses the order of two quotients.
\<close>

type_synonym profile = "(string \<times> rat) list"

datatype error = ZeroDivisionError

text \<open>
  The two statements \<^verbatim>\<open>if k not in cc: cc[k]=0\<close> and \<^verbatim>\<open>cc[k] += x\<close>.
\<close>

definition bump :: "string \<Rightarrow> rat \<Rightarrow> profile \<Rightarrow> profile" where
  "bump k x cc =
     (case map_of cc k of
        None \<Rightarrow> AList.update k (0 + x) cc
      | Some y \<Rightarrow> AList.update k (y + x) cc)"

text \<open>
  The loop \<^verbatim>\<open>for k,v in aa.items(): ...\<close> of \<^verbatim>\<open>atom_counts\<close>, with the weight \<open>w\<close> and the
  accumulator \<open>cc\<close>.
\<close>

fun add_weighted :: "rat \<Rightarrow> profile \<Rightarrow> profile \<Rightarrow> profile" where
  "add_weighted w [] cc = cc"
| "add_weighted w ((k, v) # kvs) cc = add_weighted w kvs (bump k (w * v) cc)"

fun atom_counts :: "tree \<Rightarrow> profile" where
  "atom_counts (Atom c) = [(tag (Atom c), 1)]"
| "atom_counts (And a b) =
     add_weighted 1 (atom_counts b) (add_weighted 1 (atom_counts a) [])"
| "atom_counts (Or a b) =
     add_weighted (1/2) (atom_counts b) (add_weighted (1/2) (atom_counts a) [])"
| "atom_counts (Imp a b) =
     add_weighted (3/4) (atom_counts b) (add_weighted (1/4) (atom_counts a) [])"

text \<open>
  \<^verbatim>\<open>count_overlap\<close>: the sum over the union of the keys of the products of the two
  weights (a missing key counts 0), divided by the number of keys. Python raises
  \<^verbatim>\<open>ZeroDivisionError\<close> when there is no key.
\<close>

definition weight_of :: "profile \<Rightarrow> string \<Rightarrow> rat" where
  "weight_of aa k = (case map_of aa k of Some v \<Rightarrow> v | None \<Rightarrow> 0)"

definition count_overlap :: "profile \<Rightarrow> profile \<Rightarrow> error + rat" where
  "count_overlap aa bb =
     (let keys = remdups (map fst aa @ map fst bb);
          total = sum_list (map (\<lambda>k. weight_of aa k * weight_of bb k) keys)
      in if length keys = 0 then Inl ZeroDivisionError
         else Inr (total / of_nat (length keys)))"

section \<open>The prover\<close>

text \<open>
  Step 0 of \<^verbatim>\<open>can_prove\<close>: the hypotheses tagged \<^verbatim>\<open>&\<close> are taken out and their two kids
  are appended, pair by pair, after the other hypotheses.
\<close>

definition flatten :: "tree list \<Rightarrow> tree list" where
  "flatten givens =
     filter (\<lambda>g. \<not> is_and g) givens @
     concat (map (\<lambda>g. case g of And fst' snd' \<Rightarrow> [fst', snd'] | _ \<Rightarrow> [])
                 (filter is_and givens))"

text \<open>
  Step 1: the list comprehension of pairs \<^verbatim>\<open>(count_overlap(act, atom_counts(g)), i)\<close>,
  evaluated from left to right, \<^verbatim>\<open>sorted(..., reverse=True)\<close> on these pairs (Python
  compares tuples lexicographically, and a reversed sort is the reverse of the stable
  ascending sort of the reversed list), and the hypotheses read back by index (the
  indices are those of the enumeration, so every read is in range).
\<close>

fun scores :: "profile \<Rightarrow> (nat \<times> tree) list \<Rightarrow> error + (rat \<times> nat) list" where
  "scores act [] = Inr []"
| "scores act ((i, g) # igs) =
     (case count_overlap act (atom_counts g) of
        Inl err \<Rightarrow> Inl err
      | Inr s \<Rightarrow>
          (case scores act igs of
             Inl err \<Rightarrow> Inl err
           | Inr rest \<Rightarrow> Inr ((s, i) # rest)))"

definition sorted_reverse :: "(rat \<times> nat) list \<Rightarrow> (rat \<times> nat) list" where
  "sorted_reverse xs = rev (sort (rev xs))"

definition sort_givens :: "profile \<Rightarrow> tree list \<Rightarrow> error + tree list" where
  "sort_givens act givens =
     (case scores act (enumerate 0 givens) of
        Inl err \<Rightarrow> Inl err
      | Inr idxs \<Rightarrow> Inr (map (\<lambda>(s, i). givens ! i) (sorted_reverse idxs)))"

text \<open>
  The two loop shapes of \<^verbatim>\<open>can_prove\<close>. \<open>any_ok\<close> is
  \<^verbatim>\<open>for x in xs: if f(x): return True\<close>, falling through to the code after the loop
  when no \<open>x\<close> succeeds. \<open>all_ok\<close> is \<^verbatim>\<open>for x in xs: if not f(x): break\<close> with
  \<^verbatim>\<open>else: return True\<close>. An exception raised by \<open>f\<close> leaves the loop.
\<close>

fun any_ok :: "('a \<Rightarrow> error + bool) \<Rightarrow> 'a list \<Rightarrow> error + bool" where
  "any_ok f [] = Inr False"
| "any_ok f (x # xs) =
     (case f x of Inl err \<Rightarrow> Inl err | Inr b \<Rightarrow> if b then Inr True else any_ok f xs)"

fun all_ok :: "('a \<Rightarrow> error + bool) \<Rightarrow> 'a list \<Rightarrow> error + bool" where
  "all_ok f [] = Inr True"
| "all_ok f (x # xs) =
     (case f x of Inl err \<Rightarrow> Inl err | Inr b \<Rightarrow> if \<not> b then Inr False else all_ok f xs)"

lemma any_ok_cong [fundef_cong]:
  "xs = ys \<Longrightarrow> (\<And>x. x \<in> set ys \<Longrightarrow> f x = g x) \<Longrightarrow> any_ok f xs = any_ok g ys"
  by (induction ys arbitrary: xs) (auto split: sum.splits)

lemma all_ok_cong [fundef_cong]:
  "xs = ys \<Longrightarrow> (\<And>x. x \<in> set ys \<Longrightarrow> f x = g x) \<Longrightarrow> all_ok f xs = all_ok g ys"
  by (induction ys arbitrary: xs) (auto split: sum.splits)

text \<open>
  The candidates of the slice step (the implications whose conclusion matches the
  goal), the energy it charges, the candidates of the split step with their indices,
  and the energy of a case: \<^verbatim>\<open>int(energy * 2.0/3)\<close> when the overlap exceeds 0.75 and
  \<^verbatim>\<open>int(energy * 1.0/3)\<close> otherwise, where \<^verbatim>\<open>int\<close> truncates towards zero. The
  quotient is computed on integers; the double of the source has the same integer
  part for every energy below \<open>2 ^ 52\<close>.
\<close>

definition slice_candidates :: "tree \<Rightarrow> tree list \<Rightarrow> tree list" where
  "slice_candidates tree givens =
     filter (\<lambda>g. case g of Imp hypo conc \<Rightarrow> matches conc tree | _ \<Rightarrow> False) givens"

definition slice_charge :: "tree list \<Rightarrow> int" where
  "slice_charge gs = (if length gs = 1 then 1 else 2)"

definition split_candidates :: "tree list \<Rightarrow> (nat \<times> tree) list" where
  "split_candidates givens = filter (\<lambda>(i, g). is_or g) (enumerate 0 givens)"

definition trunc_third :: "int \<Rightarrow> int" where
  "trunc_third x = (if 0 \<le> x then x div 3 else - ((- x) div 3))"

definition branch_energy :: "rat \<Rightarrow> int \<Rightarrow> int" where
  "branch_energy ov energy =
     (if ov > 3/4 then trunc_third (energy * 2) else trunc_third (energy * 1))"

lemma trunc_third_less: "0 < x \<Longrightarrow> trunc_third (x * 2) < x \<and> trunc_third (x * 1) < x"
  unfolding trunc_third_def by auto

lemma branch_energy_less: "0 < energy \<Longrightarrow> branch_energy ov energy < energy"
  unfolding branch_energy_def using trunc_third_less [of energy] by simp

lemma slice_charge_pos: "0 < slice_charge gs"
  by (simp add: slice_charge_def)

text \<open>
  \<^verbatim>\<open>Prover.can_prove(tree, givens, tab, energy)\<close>. The value returned is \<open>Inr\<close> of the
  boolean, or \<open>Inl\<close> of the exception raised.

  The trace that \<^verbatim>\<open>can_prove\<close> prints (the judgement, the rule tried, the outcome) and
  the indentation \<^verbatim>\<open>tab\<close> are output only and are left out of the model. The trace
  renders a tree with \<^verbatim>\<open>Tree.display\<close>, a method that the class \<^verbatim>\<open>Tree\<close> of
  \<^verbatim>\<open>deduce.py\<close> does not define (it defines \<^verbatim>\<open>as_str\<close> and \<^verbatim>\<open>display_multiline\<close>); the
  model takes the rendering to return a string (\<open>display\<close> above), as the output in
  the docstring of the file presumes, so that a call returns what the search
  computes. The limits of the interpreter (the recursion limit, the conversion of an
  integer beyond the range of a double) are not modelled either.
\<close>

function can_prove :: "tree \<Rightarrow> tree list \<Rightarrow> int \<Rightarrow> error + bool" where
  "can_prove tree givens energy =
    (if energy \<le> 0 then Inr False else
     let act = atom_counts tree in
     case sort_givens act (flatten givens) of
       Inl err \<Rightarrow> Inl err
     | Inr gvs \<Rightarrow>
    (let en = energy - 1 in
     case (case tree of
             Atom c \<Rightarrow> Inr (list_ex (\<lambda>g. is_atom g \<and> tag g = tag tree) gvs)
           | Imp hypo conc \<Rightarrow> can_prove conc (hypo # gvs) en
           | Or lft rht \<Rightarrow>
               (case can_prove lft gvs en of
                  Inl err \<Rightarrow> Inl err
                | Inr b \<Rightarrow> if b then Inr True else can_prove rht gvs en)
           | And fst' snd' \<Rightarrow>
               (case can_prove fst' gvs en of
                  Inl err \<Rightarrow> Inl err
                | Inr b \<Rightarrow> if \<not> b then Inr False else can_prove snd' (gvs @ [fst']) en))
     of
       Inl err \<Rightarrow> Inl err
     | Inr easy \<Rightarrow>
    (if easy then Inr True else
     let gs = slice_candidates tree gvs;
         en = energy - slice_charge gs in
     case any_ok (\<lambda>g. case g of Imp hypo conc \<Rightarrow> can_prove hypo gvs en | _ \<Rightarrow> Inr False) gs of
       Inl err \<Rightarrow> Inl err
     | Inr sliced \<Rightarrow>
    (if sliced then Inr True else
     let igs = split_candidates gvs in
     any_ok (\<lambda>(i, g). case g of
                Or lft rht \<Rightarrow>
                 (let gg = take i gvs @ drop (i + 1) gvs in
                  all_ok (\<lambda>b. case count_overlap act (atom_counts b) of
                                 Inl err \<Rightarrow> Inl err
                               | Inr ov \<Rightarrow> can_prove tree (b # gg) (branch_energy ov energy))
                         [lft, rht])
              | _ \<Rightarrow> Inr False) igs))))"
  by pat_completeness auto
termination
  by (relation "measure (\<lambda>(tree, givens, energy). nat energy)")
     (auto simp: branch_energy_less slice_charge_pos)

declare can_prove.simps [simp del]

section \<open>The rules of the search, as the specification words them\<close>





text \<open>
  The reference for soundness: natural deduction for intuitionistic propositional
  logic over atoms and the connectives \<open>And\<close>, \<open>Or\<close> and \<open>Imp\<close>. \<open>derivable G p\<close>
  says that \<open>p\<close> is derivable from the set \<open>G\<close> of hypotheses. There is no rule
  for falsehood or negation (the formulas have neither) and none for the excluded
  middle.
\<close>

inductive derivable :: "tree set \<Rightarrow> tree \<Rightarrow> bool" where
  Ax: "p \<in> G \<Longrightarrow> derivable G p"
| AndI: "derivable G p \<Longrightarrow> derivable G q \<Longrightarrow> derivable G (And p q)"
| AndE1: "derivable G (And p q) \<Longrightarrow> derivable G p"
| AndE2: "derivable G (And p q) \<Longrightarrow> derivable G q"
| OrI1: "derivable G p \<Longrightarrow> derivable G (Or p q)"
| OrI2: "derivable G q \<Longrightarrow> derivable G (Or p q)"
| OrE: "derivable G (Or p q) \<Longrightarrow> derivable (insert p G) r \<Longrightarrow> derivable (insert q G) r \<Longrightarrow>
        derivable G r"
| ImpI: "derivable (insert p G) q \<Longrightarrow> derivable G (Imp p q)"
| ImpE: "derivable G (Imp p q) \<Longrightarrow> derivable G p \<Longrightarrow> derivable G q"

text \<open>
  A three-valued Goedel valuation (truth values 0, 1 and 2, with 2 for "true"), under
  which every derivable formula is true: it separates \<open>derivable\<close> from classical
  provability.
\<close>

fun gval :: "(string \<Rightarrow> nat) \<Rightarrow> tree \<Rightarrow> nat" where
  "gval v (Atom c) = min 2 (v c)"
| "gval v (And p q) = min (gval v p) (gval v q)"
| "gval v (Or p q) = max (gval v p) (gval v q)"
| "gval v (Imp p q) = (if gval v p \<le> gval v q then 2 else gval v q)"



section \<open>Properties of the heuristics\<close>


lemma display_examples:
  "display (Imp (Or (Atom ''a'') (Atom ''b'')) (And (Atom ''b'') (Atom ''c''))) = ''(a+b)->(b&c)''"
  "display (Or (And (Atom ''d'') (Atom ''c'')) (And (Atom ''e'') (Atom ''c''))) = ''(d&c)+(e&c)''"
  "display (Imp (Atom ''a'') (Atom ''b'')) = ''a->b''"
  "display (Imp (Imp (Atom ''a'') (Atom ''F'')) (Atom ''F'')) = ''(a->F)->F''"
  by simp_all










lemma count_overlap_Inl: "count_overlap aa bb = Inl err \<Longrightarrow> aa = [] \<and> bb = []"
  by (auto simp: count_overlap_def Let_def split: if_splits)





section \<open>One invocation of the search\<close>





















section \<open>The relevance order\<close>





section \<open>Soundness and monotonicity of the search\<close>









section \<open>What is derivable is not classical\<close>

text \<open>
  Derivations are sound for the three-valued valuation, which refutes double-negation
  elimination and the excluded middle over distinct atoms \<open>a\<close> and \<open>F\<close>.
\<close>

lemma gval_le: "gval v p \<le> 2"
  by (induction p) auto

lemma derivable_gval:
  "derivable G p \<Longrightarrow> m \<le> 2 \<Longrightarrow> (\<And>q. q \<in> G \<Longrightarrow> m \<le> gval v q) \<Longrightarrow> m \<le> gval v p"
proof (induction arbitrary: m rule: derivable.induct)
  case (Ax p G)
  then show ?case by simp
next
  case (AndI G p q)
  have "m \<le> gval v p" by (rule AndI.IH(1)) (use AndI.prems in auto)
  moreover have "m \<le> gval v q" by (rule AndI.IH(2)) (use AndI.prems in auto)
  ultimately show ?case by simp
next
  case (AndE1 G p q)
  have "m \<le> gval v (And p q)" by (rule AndE1.IH) (use AndE1.prems in auto)
  then show ?case by simp
next
  case (AndE2 G p q)
  have "m \<le> gval v (And p q)" by (rule AndE2.IH) (use AndE2.prems in auto)
  then show ?case by simp
next
  case (OrI1 G p q)
  have "m \<le> gval v p" by (rule OrI1.IH) (use OrI1.prems in auto)
  then show ?case by simp
next
  case (OrI2 G q p)
  have "m \<le> gval v q" by (rule OrI2.IH) (use OrI2.prems in auto)
  then show ?case by simp
next
  case (OrE G p q r)
  have pq: "m \<le> max (gval v p) (gval v q)"
    using OrE.IH(1) [of m] OrE.prems by simp
  have 1: "min m (gval v p) \<le> gval v r"
    by (rule OrE.IH(2)) (use OrE.prems in \<open>auto simp: min_le_iff_disj\<close>)
  have 2: "min m (gval v q) \<le> gval v r"
    by (rule OrE.IH(3)) (use OrE.prems in \<open>auto simp: min_le_iff_disj\<close>)
  show ?case using pq 1 2 by (auto simp: min_def max_def split: if_splits)
next
  case (ImpI p G q)
  have "min m (gval v p) \<le> gval v q"
    by (rule ImpI.IH) (use ImpI.prems in \<open>auto simp: min_le_iff_disj\<close>)
  then show ?case using ImpI.prems(1) by (auto simp: min_def split: if_splits)
next
  case (ImpE G p q)
  have "m \<le> gval v (Imp p q)" by (rule ImpE.IH(1)) (use ImpE.prems in auto)
  moreover have "m \<le> gval v p" by (rule ImpE.IH(2)) (use ImpE.prems in auto)
  ultimately show ?case by (auto split: if_splits)
qed

lemma double_negation_not_derivable:
  assumes "a \<noteq> F"
  shows "\<not> derivable {Imp (Imp (Atom a) (Atom F)) (Atom F)} (Atom a)"
proof
  assume d: "derivable {Imp (Imp (Atom a) (Atom F)) (Atom F)} (Atom a)"
  let ?v = "\<lambda>c. if c = a then 1 else (0::nat)"
  have "2 \<le> gval ?v (Atom a)"
    using d by (rule derivable_gval) (use assms in auto)
  then show False by simp
qed

lemma excluded_middle_not_derivable:
  assumes "a \<noteq> F"
  shows "\<not> derivable {} (Or (Atom a) (Imp (Atom a) (Atom F)))"
proof
  assume d: "derivable {} (Or (Atom a) (Imp (Atom a) (Atom F)))"
  let ?v = "\<lambda>c. if c = a then 1 else (0::nat)"
  have "2 \<le> gval ?v (Or (Atom a) (Imp (Atom a) (Atom F)))"
    using d by (rule derivable_gval) auto
  then show False using assms by simp
qed

section \<open>The second example problem\<close>

text \<open>
  The example problems of \<^verbatim>\<open>deduce.py\<close> are marked "proof", "proof" and "no
  (intuitionistic) proof". The first and the third are the claims C10 and C2 below;
  the second, the goal \<^verbatim>\<open>a->F\<close> from the hypothesis \<^verbatim>\<open>((a->F)->F)->F\<close>, is proved by
  the model as well.
\<close>

lemma second_example_problem:
  "can_prove (Imp (Atom ''a'') (Atom ''F''))
     [Imp (Imp (Imp (Atom ''a'') (Atom ''F'')) (Atom ''F'')) (Atom ''F'')] 10 = Inr True"
  by code_simp

section \<open>The claims\<close>












text \<open>
  C6, as the code has it. The claim is that the overlap of two empty profiles is
  defined and yields 0. In the code \<^verbatim>\<open>count_overlap\<close> divides by the number of keys
  without a guard, so on two empty profiles it raises \<^verbatim>\<open>ZeroDivisionError\<close>.
\<close>

theorem count_overlap_empty_raises: "count_overlap [] [] = Inl ZeroDivisionError"
  by (simp add: count_overlap_def)

text \<open>
  C6, amended: \<^verbatim>\<open>count_overlap\<close> raises \<^verbatim>\<open>ZeroDivisionError\<close> exactly when both
  profiles are empty; whenever one of them has a key it returns a number.
\<close>

theorem count_overlap_raises_iff:
  "(count_overlap aa bb = Inl ZeroDivisionError) = (aa = [] \<and> bb = []) \<and>
   (\<exists>r. count_overlap aa bb = Inr r) = (\<not> (aa = [] \<and> bb = []))"
  by (auto simp: count_overlap_def Let_def)








end
